theory Spec2Isabelle
  imports Complex_Main
begin

section \<open>The image editor's edit history, session persistence and edit orchestration\<close>

text \<open>
  A shallow embedding of the state logic of the \<^verbatim>\<open>App\<close> component (the file that
  declares \<^verbatim>\<open>dataURLtoFile\<close>, \<^verbatim>\<open>addImageToHistory\<close>, \<^verbatim>\<open>saveData\<close> and the
  \<^verbatim>\<open>handle...\<close> callbacks), of \<^verbatim>\<open>handleApiResponse\<close> in
  \<^verbatim>\<open>services/geminiService.ts\<close>, and of the \<^verbatim>\<open>disabled\<close> conditions of the
  panel components.

  Conventions.
  \<^item> A React state cell is a field of the record \<open>app_state\<close>; \<^verbatim>\<open>setX(v)\<close> is the
    update \<open>st\<lparr>x := v\<rparr>\<close>. A callback reads the state of the render that created it;
    between two events the component has re-rendered, so a callback invoked on a state
    reads that state. The part of an \<^verbatim>\<open>async\<close> callback after its \<^verbatim>\<open>await\<close>
    still reads the values captured at invocation: they travel in a \<open>pending\<close> record.
  \<^item> A JavaScript exception is a value of type \<open>exn\<close>; code that can throw returns
    \<open>exn + 'a\<close> with \<open>Inl\<close> for the exception.
  \<^item> Strings are lists of 8-bit characters (the ASCII range of a JavaScript string).
  \<^item> What the browser and the remote model answer (the rendered thumbnail, whether a
    storage write throws, the model's response, the clock, the random number) is a
    parameter of the function that asks for it.
\<close>

subsection \<open>JavaScript values and library functions\<close>

text \<open>Thrown values: an \<^verbatim>\<open>Error\<close> (with the name of its class), a
  \<^verbatim>\<open>DOMException\<close> (name and message), or a value that is not an \<^verbatim>\<open>Error\<close>
  (a rejected promise can carry an event object).\<close>

datatype exn =
    JsError string string
  | DOMException string string
  | NonError

fun instanceof_Error :: "exn \<Rightarrow> bool" where
  "instanceof_Error (JsError _ _) = True"
| "instanceof_Error (DOMException _ _) = True"
| "instanceof_Error NonError = False"

fun instanceof_DOMException :: "exn \<Rightarrow> bool" where
  "instanceof_DOMException (DOMException _ _) = True"
| "instanceof_DOMException _ = False"

fun exn_name :: "exn \<Rightarrow> string" where
  "exn_name (JsError n _) = n"
| "exn_name (DOMException n _) = n"
| "exn_name NonError = []"

fun exn_message :: "exn \<Rightarrow> string" where
  "exn_message (JsError _ m) = m"
| "exn_message (DOMException _ m) = m"
| "exn_message NonError = []"

text \<open>\<^verbatim>\<open>Array.prototype.slice(start, end)\<close>: a negative bound counts from the end,
  and both bounds are clamped to the array.\<close>

definition relative_index :: "int \<Rightarrow> nat \<Rightarrow> nat" where
  "relative_index r len = (if r < 0 then nat (max (int len + r) 0) else min (nat r) len)"

definition slice :: "'a list \<Rightarrow> int \<Rightarrow> int \<Rightarrow> 'a list" where
  "slice xs start end =
     (let k = relative_index start (length xs);
          final = relative_index end (length xs)
      in take (final - k) (drop k xs))"

text \<open>\<^verbatim>\<open>xs.slice(start)\<close>: the end defaults to the length.\<close>

definition slice_from :: "'a list \<Rightarrow> int \<Rightarrow> 'a list" where
  "slice_from xs start = slice xs start (int (length xs))"

text \<open>\<^verbatim>\<open>xs[i] ?? null\<close>: an index outside the array reads \<^verbatim>\<open>undefined\<close>.\<close>

definition index_or_null :: "'a list \<Rightarrow> int \<Rightarrow> 'a option" where
  "index_or_null xs i = (if 0 \<le> i \<and> i < int (length xs) then Some (xs ! nat i) else None)"

text \<open>\<^verbatim>\<open>String.prototype.trim\<close> on the ASCII white space and line terminators.\<close>

definition is_space :: "char \<Rightarrow> bool" where
  "is_space c = ((of_char c :: nat) \<in> {9, 10, 11, 12, 13, 32})"

definition trim :: "string \<Rightarrow> string" where
  "trim s = rev (dropWhile is_space (rev (dropWhile is_space s)))"

text \<open>\<^verbatim>\<open>s.split(',')\<close>: the pieces between commas; the empty string gives one empty
  piece.\<close>

fun split_comma :: "string \<Rightarrow> string list" where
  "split_comma [] = [[]]"
| "split_comma (c # cs) =
     (if c = CHR '','' then [] # split_comma cs
      else (case split_comma cs of
              [] \<Rightarrow> [[c]]
            | w # ws \<Rightarrow> (c # w) # ws))"

text \<open>The regular expression \<^verbatim>\<open>/:(.*?);/\<close>. \<open>until_semicolon\<close> matches
  \<^verbatim>\<open>(.*?);\<close> at the start of a string: the shortest run of characters other than line
  terminators that is followed by a semicolon. \<open>match_mime\<close> is group 1 of the leftmost
  match, \<open>None\<close> when \<^verbatim>\<open>match\<close> returns \<^verbatim>\<open>null\<close>.\<close>

fun until_semicolon :: "string \<Rightarrow> string option" where
  "until_semicolon [] = None"
| "until_semicolon (c # cs) =
     (if c = CHR '';'' then Some []
      else if (of_char c :: nat) \<in> {10, 13} then None
      else map_option ((#) c) (until_semicolon cs))"

fun match_mime :: "string \<Rightarrow> string option" where
  "match_mime [] = None"
| "match_mime (c # cs) =
     (if c = CHR '':'' then
        (case until_semicolon cs of
           Some g \<Rightarrow> Some g
         | None \<Rightarrow> match_mime cs)
      else match_mime cs)"

text \<open>\<^verbatim>\<open>atob\<close>, the forgiving base64 decoder of the HTML standard: ASCII white space is
  dropped; if the length is then a multiple of four, one or two trailing \<^verbatim>\<open>=\<close> are
  dropped; a length of 1 modulo 4 or a character outside the alphabet throws
  \<^verbatim>\<open>InvalidCharacterError\<close>; otherwise every character carries six bits and complete
  bytes are emitted. The result is given as the list of the character codes of the
  decoded binary string.\<close>

definition is_ascii_whitespace :: "char \<Rightarrow> bool" where
  "is_ascii_whitespace c = ((of_char c :: nat) \<in> {9, 10, 12, 13, 32})"

definition base64_value :: "char \<Rightarrow> nat option" where
  "base64_value c =
     (let n = (of_char c :: nat) in
      if 65 \<le> n \<and> n \<le> 90 then Some (n - 65)
      else if 97 \<le> n \<and> n \<le> 122 then Some (n - 71)
      else if 48 \<le> n \<and> n \<le> 57 then Some (n + 4)
      else if n = 43 then Some 62
      else if n = 47 then Some 63
      else None)"

fun base64_bytes :: "nat list \<Rightarrow> nat list" where
  "base64_bytes (a # b # c # d # rest) =
     (a * 4 + b div 16) # ((b mod 16) * 16 + c div 4) # ((c mod 4) * 64 + d) # base64_bytes rest"
| "base64_bytes [a, b, c] = [a * 4 + b div 16, (b mod 16) * 16 + c div 4]"
| "base64_bytes [a, b] = [a * 4 + b div 16]"
| "base64_bytes _ = []"

definition strip_padding :: "string \<Rightarrow> string" where
  "strip_padding d =
     (if length d mod 4 = 0 then
        (case rev d of
           x # y # r \<Rightarrow>
             if x = CHR ''='' \<and> y = CHR ''='' then rev r
             else if x = CHR ''='' then rev (y # r)
             else d
         | _ \<Rightarrow> d)
      else d)"

definition invalid_character :: exn where
  "invalid_character =
     DOMException ''InvalidCharacterError'' ''The string to be decoded is not correctly encoded.''"

definition atob :: "string \<Rightarrow> exn + nat list" where
  "atob s =
     (let d = strip_padding (filter (\<lambda>c. \<not> is_ascii_whitespace c) s) in
      if length d mod 4 = 1 then Inl invalid_character
      else if list_ex (\<lambda>c. base64_value c = None) d then Inl invalid_character
      else Inr (base64_bytes (map (\<lambda>c. the (base64_value c)) d)))"

text \<open>Decimal rendering of a number inside a template string.\<close>

fun show_nat :: "nat \<Rightarrow> string" where
  "show_nat n =
     (if n < 10 then [char_of (48 + n)]
      else show_nat (n div 10) @ [char_of (48 + n mod 10)])"

declare show_nat.simps [simp del]

subsection \<open>Files and \<^verbatim>\<open>dataURLtoFile\<close>\<close>

text \<open>A \<^verbatim>\<open>File\<close>: its bytes, its name and its MIME type.\<close>

datatype File = File (file_bits: "nat list") (file_name: string) (file_type: string)

text \<open>\<^verbatim>\<open>new File([bits], name, {type})\<close>: the File API keeps a type made of printable
  ASCII characters, in lower case, and replaces any other type by the empty string.\<close>

definition to_lower :: "char \<Rightarrow> char" where
  "to_lower c =
     (let n = (of_char c :: nat) in if 65 \<le> n \<and> n \<le> 90 then char_of (n + 32) else c)"

definition new_File :: "nat list \<Rightarrow> string \<Rightarrow> string \<Rightarrow> File" where
  "new_File bits filename t =
     File bits filename
       (if list_ex (\<lambda>c. (of_char c :: nat) < 32 \<or> 126 < (of_char c :: nat)) t then []
        else map to_lower t)"

definition dataURLtoFile :: "string \<Rightarrow> string \<Rightarrow> exn + File" where
  "dataURLtoFile dataurl filename =
     (let arr = split_comma dataurl in
      if length arr < 2 then Inl (JsError ''Error'' ''Invalid data URL'')
      else
        (case match_mime (arr ! 0) of
           None \<Rightarrow> Inl (JsError ''Error'' ''Could not parse MIME type from data URL'')
         | Some mime \<Rightarrow>
             if mime = [] then Inl (JsError ''Error'' ''Could not parse MIME type from data URL'')
             else
               (case atob (arr ! 1) of
                  Inl e \<Rightarrow> Inl e
                | Inr u8arr \<Rightarrow> Inr (new_File u8arr filename mime))))"

subsection \<open>The component state\<close>

datatype Tab = retouch | try_on | design | persona | adjust | filters | crop_tab

record PixelCrop =
  crop_x :: int
  crop_y :: int
  crop_width :: int
  crop_height :: int

text \<open>The state cells of \<^verbatim>\<open>App\<close> that its callbacks write. The cells that only drive
  the display (object URLs, the comparison flag, the panning flag, the aspect ratio) are
  left out; \<open>zoom\<close> and \<open>pan\<close> are kept because committing an image resets them.
  \<open>historyIndex\<close> is \<open>-1\<close> when no image is loaded.\<close>

record app_state =
  history :: "File list"
  historyIndex :: int
  prompt :: string
  isLoading :: bool
  error :: "string option"
  editHotspot :: "(int \<times> int) option"
  displayHotspot :: "(int \<times> int) option"
  activeTab :: Tab
  crop :: "PixelCrop option"
  completedCrop :: "PixelCrop option"
  zoom :: rat
  pan :: "rat \<times> rat"
  referenceImage :: "File option"
  isStyleLocked :: bool
  designSeed :: "int option"

text \<open>The state of the first render: every \<^verbatim>\<open>useState\<close> initial value.\<close>

definition initial_state :: app_state where
  "initial_state =
     \<lparr> history = [], historyIndex = -1, prompt = [], isLoading = True, error = None,
       editHotspot = None, displayHotspot = None, activeTab = retouch,
       crop = None, completedCrop = None, zoom = 1, pan = (0, 0),
       referenceImage = None, isStyleLocked = False, designSeed = None \<rparr>"

definition currentImage :: "app_state \<Rightarrow> File option" where
  "currentImage st = index_or_null (history st) (historyIndex st)"

definition originalImage :: "app_state \<Rightarrow> File option" where
  "originalImage st = index_or_null (history st) 0"

definition canUndo :: "app_state \<Rightarrow> bool" where
  "canUndo st = (historyIndex st > 0)"

definition canRedo :: "app_state \<Rightarrow> bool" where
  "canRedo st = (historyIndex st < int (length (history st)) - 1)"

definition resetZoomAndPan :: "app_state \<Rightarrow> app_state" where
  "resetZoomAndPan st = st\<lparr>zoom := 1, pan := (0, 0)\<rparr>"

subsection \<open>The edit history\<close>

text \<open>\<^verbatim>\<open>addImageToHistory\<close> is a callback of the render whose history is \<open>h\<close> and
  whose cursor is \<open>i\<close>; it computes the new history from these and writes it into the
  state \<open>st\<close> of the moment it runs.\<close>

definition addImageToHistory :: "File list \<Rightarrow> int \<Rightarrow> File \<Rightarrow> app_state \<Rightarrow> app_state" where
  "addImageToHistory h i newImageFile st =
     (let newHistory = slice h 0 (i + 1) @ [newImageFile] in
      resetZoomAndPan
        (st\<lparr>history := newHistory,
            historyIndex := int (length newHistory) - 1,
            crop := None,
            completedCrop := None\<rparr>))"

text \<open>Committing on a state with the callback of that same state.\<close>

definition commit :: "app_state \<Rightarrow> File \<Rightarrow> app_state" where
  "commit st f = addImageToHistory (history st) (historyIndex st) f st"

definition handleImageUpload :: "File \<Rightarrow> app_state \<Rightarrow> app_state" where
  "handleImageUpload file st =
     resetZoomAndPan
       (st\<lparr>error := None,
           history := [file],
           historyIndex := 0,
           editHotspot := None,
           displayHotspot := None,
           activeTab := retouch,
           crop := None,
           completedCrop := None,
           referenceImage := None,
           isStyleLocked := False,
           designSeed := None\<rparr>)"

definition handleHistoryStepClick :: "int \<Rightarrow> app_state \<Rightarrow> app_state" where
  "handleHistoryStepClick index st =
     (if index \<ge> 0 \<and> index < int (length (history st)) then
        resetZoomAndPan
          (st\<lparr>historyIndex := index,
              editHotspot := None,
              displayHotspot := None,
              crop := None,
              completedCrop := None\<rparr>)
      else st)"

definition handleUndo :: "app_state \<Rightarrow> app_state" where
  "handleUndo st = (if canUndo st then handleHistoryStepClick (historyIndex st - 1) st else st)"

definition handleRedo :: "app_state \<Rightarrow> app_state" where
  "handleRedo st = (if canRedo st then handleHistoryStepClick (historyIndex st + 1) st else st)"

definition handleReset :: "app_state \<Rightarrow> app_state" where
  "handleReset st =
     (if length (history st) > 0 then (handleHistoryStepClick 0 st)\<lparr>error := None\<rparr> else st)"



text \<open>The operations of the edit history, for statements about sequences of them.\<close>

datatype history_op = Commit File | Undo | Redo | Jump int | Reset

fun apply_op :: "app_state \<Rightarrow> history_op \<Rightarrow> app_state" where
  "apply_op st (Commit f) = commit st f"
| "apply_op st Undo = handleUndo st"
| "apply_op st Redo = handleRedo st"
| "apply_op st (Jump i) = handleHistoryStepClick i st"
| "apply_op st Reset = handleReset st"

definition cursor_in_range :: "app_state \<Rightarrow> bool" where
  "cursor_in_range st = (0 \<le> historyIndex st \<and> historyIndex st < int (length (history st)))"

subsection \<open>Session persistence\<close>

text \<open>
  The browser's \<^verbatim>\<open>localStorage\<close> is modelled at the one key the program uses,
  \<^verbatim>\<open>'oomify-autosave'\<close>: \<open>None\<close> when the key is absent, otherwise the stored text.
  A stored text is described by what \<^verbatim>\<open>JSON.parse\<close> makes of it, so that
  \<^verbatim>\<open>JSON.parse (JSON.stringify v)\<close> is \<open>v\<close> by construction: the empty string, a
  text that \<^verbatim>\<open>JSON.parse\<close> rejects, or a JSON value. Of a JSON value the model keeps
  what the restore effect reads: whether it is \<^verbatim>\<open>null\<close>, and otherwise its properties
  \<^verbatim>\<open>history\<close>, \<^verbatim>\<open>historyIndex\<close>, \<^verbatim>\<open>prompt\<close> and \<^verbatim>\<open>activeTab\<close>. The
  \<^verbatim>\<open>history\<close> property is an array of entries, each a string or some other value, or
  it is not an array (absent, or any other value). The other three properties are read at
  the types of the state cells they are stored into, \<open>None\<close> standing for an absent or
  \<^verbatim>\<open>null\<close> property.
\<close>

datatype json_entry = JString string | JNotString

datatype history_field = NotAnArray | HistoryArray "json_entry list"

record saved_state =
  saved_history :: history_field
  saved_historyIndex :: "int option"
  saved_prompt :: "string option"
  saved_activeTab :: "Tab option"

datatype parsed = ParsedNull | ParsedValue saved_state

datatype stored = EmptyText | Unparseable | Json parsed

type_synonym local_storage = "stored option"

text \<open>The callback of \<^verbatim>\<open>savedState.history.map\<close> at one entry: an entry that is
  not a string has no \<^verbatim>\<open>split\<close> method, and the call throws a \<^verbatim>\<open>TypeError\<close>.\<close>

fun decode_entry :: "nat \<Rightarrow> json_entry \<Rightarrow> exn + File" where
  "decode_entry index (JString dataUrl) =
     dataURLtoFile dataUrl (''saved-image-'' @ show_nat index @ ''.png'')"
| "decode_entry index JNotString =
     Inl (JsError ''TypeError'' ''dataurl.split is not a function'')"

text \<open>The \<^verbatim>\<open>map\<close> itself, from index \<open>k\<close> on: it stops at the first entry that
  throws.\<close>

fun decode_entries :: "nat \<Rightarrow> json_entry list \<Rightarrow> exn + File list" where
  "decode_entries k [] = Inr []"
| "decode_entries k (x # xs) =
     (case decode_entry k x of
        Inl e \<Rightarrow> Inl e
      | Inr f \<Rightarrow>
          (case decode_entries (Suc k) xs of
             Inl e \<Rightarrow> Inl e
           | Inr fs \<Rightarrow> Inr (f # fs)))"

text \<open>The body of the \<^verbatim>\<open>try\<close> block of the restore effect, run on a non-empty stored
  text: the new state, or the exception thrown.\<close>

definition restore_try :: "stored \<Rightarrow> app_state \<Rightarrow> exn + app_state" where
  "restore_try item st =
     (case item of
        EmptyText \<Rightarrow> Inl (JsError ''SyntaxError'' ''Unexpected end of JSON input'')
      | Unparseable \<Rightarrow> Inl (JsError ''SyntaxError'' ''Unexpected token'')
      | Json ParsedNull \<Rightarrow>
          Inl (JsError ''TypeError'' ''Cannot read properties of null'')
      | Json (ParsedValue savedState) \<Rightarrow>
          (case saved_history savedState of
             NotAnArray \<Rightarrow> Inr st
           | HistoryArray entries \<Rightarrow>
               (case decode_entries 0 entries of
                  Inl e \<Rightarrow> Inl e
                | Inr historyFiles \<Rightarrow>
                    Inr (st\<lparr>history := historyFiles,
                            historyIndex :=
                              (case saved_historyIndex savedState of None \<Rightarrow> -1 | Some i \<Rightarrow> i),
                            prompt :=
                              (case saved_prompt savedState of None \<Rightarrow> [] | Some p \<Rightarrow> p),
                            activeTab :=
                              (case saved_activeTab savedState of None \<Rightarrow> retouch | Some t \<Rightarrow> t)\<rparr>))))"

text \<open>The effect that runs once on mount. It returns the state and the storage it
  leaves; \<open>Inl\<close> would be an exception that leaves the effect. An absent key and the
  empty string are both falsy and skip the \<^verbatim>\<open>try\<close> block.\<close>

definition restore :: "local_storage \<Rightarrow> app_state \<Rightarrow> exn + (app_state \<times> local_storage)" where
  "restore ls st =
     (case ls of
        None \<Rightarrow> Inr (st\<lparr>isLoading := False\<rparr>, ls)
      | Some EmptyText \<Rightarrow> Inr (st\<lparr>isLoading := False\<rparr>, ls)
      | Some item \<Rightarrow>
          (case restore_try item st of
             Inr st' \<Rightarrow> Inr (st'\<lparr>isLoading := False\<rparr>, ls)
           | Inl e \<Rightarrow> Inr (st\<lparr>isLoading := False\<rparr>, None)))"

text \<open>\<^verbatim>\<open>createImageThumbnail\<close>. Reading the file, decoding the image, scaling it to at
  most \<open>maxSize\<close> on its longer side and encoding the canvas are the browser's:
  \<open>render file maxSize\<close> is the string that \<^verbatim>\<open>canvas.toDataURL('image/jpeg', 0.8)\<close>
  returns, or the value the promise is rejected with.\<close>

definition createImageThumbnail :: "(File \<Rightarrow> nat \<Rightarrow> exn + string) \<Rightarrow> File \<Rightarrow> exn + string" where
  "createImageThumbnail render file = render file 512"

text \<open>\<^verbatim>\<open>Promise.all\<close> over the thumbnails: all the strings, or a rejection (the first
  in the order of the list).\<close>

fun promise_all :: "(exn + 'a) list \<Rightarrow> exn + 'a list" where
  "promise_all [] = Inr []"
| "promise_all (r # rs) =
     (case r of
        Inl e \<Rightarrow> Inl e
      | Inr x \<Rightarrow>
          (case promise_all rs of
             Inl e \<Rightarrow> Inl e
           | Inr xs \<Rightarrow> Inr (x # xs)))"

definition MAX_HISTORY_AUTOSAVE :: int where
  "MAX_HISTORY_AUTOSAVE = 5"

text \<open>The body of the \<^verbatim>\<open>try\<close> block of \<^verbatim>\<open>saveData\<close>: the text written, or the
  exception thrown. \<open>setItem v\<close> is the exception \<^verbatim>\<open>localStorage.setItem\<close> throws
  when asked to store \<open>v\<close>, \<open>None\<close> when it stores it.\<close>

definition saveData_try ::
  "(File \<Rightarrow> nat \<Rightarrow> exn + string) \<Rightarrow> (stored \<Rightarrow> exn option) \<Rightarrow> app_state \<Rightarrow> exn + stored" where
  "saveData_try render setItem st =
     (let historyToSave = slice_from (history st) (- MAX_HISTORY_AUTOSAVE);
          truncatedCount = int (length (history st)) - int (length historyToSave);
          historyIndexToSave = max 0 (historyIndex st - truncatedCount)
      in case promise_all (map (createImageThumbnail render) historyToSave) of
           Inl e \<Rightarrow> Inl e
         | Inr historyDataUrls \<Rightarrow>
             (let stateToSave =
                    Json (ParsedValue
                      \<lparr> saved_history = HistoryArray (map JString historyDataUrls),
                        saved_historyIndex = Some historyIndexToSave,
                        saved_prompt = Some (prompt st),
                        saved_activeTab = Some (activeTab st) \<rparr>)
              in case setItem stateToSave of
                   Some e \<Rightarrow> Inl e
                 | None \<Rightarrow> Inr stateToSave))"

definition is_quota_error :: "exn \<Rightarrow> bool" where
  "is_quota_error e =
     (instanceof_DOMException e \<and>
      (exn_name e = ''QuotaExceededError'' \<or> exn_name e = ''NS_ERROR_DOM_QUOTA_REACHED''))"

text \<open>\<^verbatim>\<open>saveData\<close>: the storage it leaves; \<open>Inl\<close> would be an exception that leaves
  the function. A failed \<^verbatim>\<open>setItem\<close> leaves the stored value as it was.\<close>

definition saveData ::
  "(File \<Rightarrow> nat \<Rightarrow> exn + string) \<Rightarrow> (stored \<Rightarrow> exn option) \<Rightarrow> app_state \<Rightarrow> local_storage
     \<Rightarrow> exn + local_storage" where
  "saveData render setItem st ls =
     (if length (history st) > 0 then
        (case saveData_try render setItem st of
           Inr v \<Rightarrow> Inr (Some v)
         | Inl e \<Rightarrow> if is_quota_error e then Inr None else Inr ls)
      else Inr None)"

text \<open>A stored record is well formed when it is a JSON value other than \<^verbatim>\<open>null\<close>
  whose \<^verbatim>\<open>history\<close> is an array of strings that \<^verbatim>\<open>dataURLtoFile\<close> accepts.\<close>

fun entry_decodes :: "json_entry \<Rightarrow> bool" where
  "entry_decodes (JString dataUrl) = (case dataURLtoFile dataUrl [] of Inr _ \<Rightarrow> True | Inl _ \<Rightarrow> False)"
| "entry_decodes JNotString = False"

definition well_formed :: "local_storage \<Rightarrow> bool" where
  "well_formed ls =
     (case ls of
        Some (Json (ParsedValue r)) \<Rightarrow>
          (case saved_history r of
             HistoryArray entries \<Rightarrow> list_all entry_decodes entries
           | NotAnArray \<Rightarrow> False)
      | _ \<Rightarrow> False)"

subsection \<open>The generation service\<close>

text \<open>What \<^verbatim>\<open>handleApiResponse\<close> reads of a \<^verbatim>\<open>GenerateContentResponse\<close>:
  \<^verbatim>\<open>promptFeedback?.blockReason\<close> and \<^verbatim>\<open>blockReasonMessage\<close>, the
  \<^verbatim>\<open>inlineData\<close> of each part of the first candidate (\<open>None\<close> for a part without
  one; no parts when there is no candidate), the first candidate's \<^verbatim>\<open>finishReason\<close>,
  and \<^verbatim>\<open>response.text\<close>. A string is truthy when it is present and not empty.
  \<open>CHR 0x22\<close> is the double quote.\<close>

record inline_data =
  mimeType :: string
  data :: string

record api_response =
  blockReason :: "string option"
  blockReasonMessage :: "string option"
  parts :: "inline_data option list"
  finishReason :: "string option"
  responseText :: "string option"

fun truthy :: "string option \<Rightarrow> bool" where
  "truthy None = False"
| "truthy (Some s) = (s \<noteq> [])"

fun or_empty :: "string option \<Rightarrow> string" where
  "or_empty None = []"
| "or_empty (Some s) = s"

text \<open>The three messages \<^verbatim>\<open>handleApiResponse\<close> builds.\<close>

definition blocked_message :: "api_response \<Rightarrow> string" where
  "blocked_message response =
     ''Request was blocked. Reason: '' @ or_empty (blockReason response) @ ''. '' @
     or_empty (blockReasonMessage response)"

definition stopped_message :: "string \<Rightarrow> api_response \<Rightarrow> string" where
  "stopped_message ctx response =
     ''Image generation for '' @ ctx @ '' stopped unexpectedly. Reason: '' @
     or_empty (finishReason response) @ ''. This often relates to safety settings.''"

definition no_image_message :: "string \<Rightarrow> api_response \<Rightarrow> string" where
  "no_image_message ctx response =
     (let textFeedback = map_option trim (responseText response) in
      ''The AI model did not return an image for the '' @ ctx @ ''. '' @
      (if truthy textFeedback
       then ''The model responded with text: '' @ [CHR 0x22] @ or_empty textFeedback @ [CHR 0x22]
       else ''This can happen due to safety filters or if the request is too complex. Please try rephrasing your prompt to be more direct.''))"

definition handleApiResponse :: "api_response \<Rightarrow> string \<Rightarrow> exn + string" where
  "handleApiResponse response ctx =
     (if truthy (blockReason response) then Inl (JsError ''Error'' (blocked_message response))
      else
        (case find (\<lambda>part. part \<noteq> None) (parts response) of
           Some (Some imagePart) \<Rightarrow>
             Inr (''data:'' @ mimeType imagePart @ '';base64,'' @ data imagePart)
         | _ \<Rightarrow>
             if truthy (finishReason response) \<and> finishReason response \<noteq> Some ''STOP''
             then Inl (JsError ''Error'' (stopped_message ctx response))
             else Inl (JsError ''Error'' (no_image_message ctx response))))"

text \<open>The end of every \<^verbatim>\<open>generate...Image\<close> function: it awaits the model (an
  exception on the way rejects the promise) and hands the response to
  \<^verbatim>\<open>handleApiResponse\<close> with its context word.\<close>

definition generate :: "string \<Rightarrow> exn + api_response \<Rightarrow> exn + string" where
  "generate ctx outcome =
     (case outcome of
        Inl e \<Rightarrow> Inl e
      | Inr response \<Rightarrow> handleApiResponse response ctx)"

subsection \<open>The edit orchestrator\<close>

text \<open>The call a handler issues, with its arguments, and what the rest of the handler
  keeps from the render it was invoked in: the history and the cursor that
  \<^verbatim>\<open>addImageToHistory\<close> closes over.\<close>

datatype tryon_details = TryOnPrompt string | TryOnGarment File

datatype edit_call =
    GenerateEditedImage File string "int \<times> int"
  | GenerateFilteredImage File string
  | GenerateAdjustedImage File string
  | GenerateVirtualTryOnImage File "int \<times> int" tryon_details
  | GenerateStyledImage File File string "int option"
  | GeneratePersonaImage File string

record pending =
  call :: edit_call
  captured_history :: "File list"
  captured_index :: int

text \<open>The context word each service function passes to \<^verbatim>\<open>handleApiResponse\<close>.
  \<^verbatim>\<open>generatePersonaImage\<close> is imported from the service but is not in the sources.\<close>

fun api_context :: "edit_call \<Rightarrow> string option" where
  "api_context (GenerateEditedImage _ _ _) = Some ''edit''"
| "api_context (GenerateFilteredImage _ _) = Some ''filter''"
| "api_context (GenerateAdjustedImage _ _) = Some ''adjustment''"
| "api_context (GenerateVirtualTryOnImage _ _ _) = Some ''try-on''"
| "api_context (GenerateStyledImage _ _ _ _) = Some ''design style''"
| "api_context (GeneratePersonaImage _ _) = None"

fun name_prefix :: "edit_call \<Rightarrow> string" where
  "name_prefix (GenerateEditedImage _ _ _) = ''edited-''"
| "name_prefix (GenerateFilteredImage _ _) = ''filtered-''"
| "name_prefix (GenerateAdjustedImage _ _) = ''adjusted-''"
| "name_prefix (GenerateVirtualTryOnImage _ _ _) = ''tryon-''"
| "name_prefix (GenerateStyledImage _ _ _ _) = ''styled-''"
| "name_prefix (GeneratePersonaImage _ _) = ''persona-''"

fun failure_prefix :: "edit_call \<Rightarrow> string" where
  "failure_prefix (GenerateEditedImage _ _ _) = ''Failed to generate the image. ''"
| "failure_prefix (GenerateFilteredImage _ _) = ''Failed to apply the filter. ''"
| "failure_prefix (GenerateAdjustedImage _ _) = ''Failed to apply the adjustment. ''"
| "failure_prefix (GenerateVirtualTryOnImage _ _ _) = ''Failed to generate the image. ''"
| "failure_prefix (GenerateStyledImage _ _ _ _) = ''Failed to apply the style. ''"
| "failure_prefix (GeneratePersonaImage _ _) = ''Failed to generate the persona image. ''"

text \<open>\<^verbatim>\<open>handleGenerate\<close> and \<^verbatim>\<open>handleApplyTryOn\<close> clear the hotspot after a
  commit.\<close>

fun clears_hotspot :: "edit_call \<Rightarrow> bool" where
  "clears_hotspot (GenerateEditedImage _ _ _) = True"
| "clears_hotspot (GenerateVirtualTryOnImage _ _ _) = True"
| "clears_hotspot _ = False"

definition reject :: "string \<Rightarrow> app_state \<Rightarrow> app_state \<times> pending option" where
  "reject message st = (st\<lparr>error := Some message\<rparr>, None)"

definition begin_request :: "edit_call \<Rightarrow> app_state \<Rightarrow> app_state \<times> pending option" where
  "begin_request c st =
     (st\<lparr>isLoading := True, error := None\<rparr>,
      Some \<lparr> call = c, captured_history = history st, captured_index = historyIndex st \<rparr>)"


definition handleApplyFilter :: "string \<Rightarrow> app_state \<Rightarrow> app_state \<times> pending option" where
  "handleApplyFilter filterPrompt st =
     (case currentImage st of
        None \<Rightarrow> reject ''No image loaded to apply a filter to.'' st
      | Some img \<Rightarrow> begin_request (GenerateFilteredImage img filterPrompt) st)"



text \<open>\<^verbatim>\<open>handleApplyStyle\<close>. \<open>newSeed\<close> is the value of
  \<^verbatim>\<open>Math.floor(Math.random() * 1_000_000_000)\<close> should the handler draw one. The test
  \<^verbatim>\<open>if (designSeed)\<close> is a truthiness test: it fails for \<^verbatim>\<open>null\<close> and for 0.\<close>

definition handleApplyStyle :: "int \<Rightarrow> string \<Rightarrow> app_state \<Rightarrow> app_state \<times> pending option" where
  "handleApplyStyle newSeed stylePrompt st =
     (case currentImage st of
        None \<Rightarrow> reject ''No target image loaded.'' st
      | Some img \<Rightarrow>
          (case referenceImage st of
             None \<Rightarrow> reject ''Please upload a style reference image.'' st
           | Some reference \<Rightarrow>
               (let (seedToUse, st1) =
                      (if isStyleLocked st then
                         (if designSeed st \<noteq> None \<and> designSeed st \<noteq> Some 0
                          then (designSeed st, st)
                          else (Some newSeed, st\<lparr>designSeed := Some newSeed\<rparr>))
                       else (None, st\<lparr>designSeed := None\<rparr>))
                in (st1\<lparr>isLoading := True, error := None\<rparr>,
                    Some \<lparr> call = GenerateStyledImage img reference stylePrompt seedToUse,
                           captured_history = history st,
                           captured_index = historyIndex st \<rparr>))))"


text \<open>The seed a style request carries.\<close>

fun seed_used :: "pending option \<Rightarrow> int option" where
  "seed_used (Some p) = (case call p of GenerateStyledImage _ _ _ seed \<Rightarrow> seed | _ \<Rightarrow> None)"
| "seed_used None = None"

text \<open>The rest of a handler, after its \<^verbatim>\<open>await\<close>. \<open>result\<close> is the settled promise
  of the service function: the data URL, or the value it was rejected with. \<open>now\<close> is
  \<^verbatim>\<open>Date.now()\<close>. The \<^verbatim>\<open>try\<close> block decodes and commits, the \<^verbatim>\<open>catch\<close> block
  reports, and \<^verbatim>\<open>finally\<close> clears \<open>isLoading\<close>; all of them write into the state \<open>st\<close>
  of the moment the promise settles.\<close>

definition settle :: "nat \<Rightarrow> pending \<Rightarrow> exn + string \<Rightarrow> app_state \<Rightarrow> app_state" where
  "settle now p result st =
     (let attempt =
            (case result of
               Inl e \<Rightarrow> Inl e
             | Inr url \<Rightarrow> dataURLtoFile url (name_prefix (call p) @ show_nat now @ ''.png''));
          st1 =
            (case attempt of
               Inr newImageFile \<Rightarrow>
                 (let st2 = addImageToHistory (captured_history p) (captured_index p) newImageFile st
                  in if clears_hotspot (call p)
                     then st2\<lparr>editHotspot := None, displayHotspot := None\<rparr>
                     else st2)
             | Inl err \<Rightarrow>
                 (let errorMessage =
                        (if instanceof_Error err then exn_message err
                         else ''An unknown error occurred.'')
                  in st\<lparr>error := Some (failure_prefix (call p) @ errorMessage)\<rparr>))
      in st1\<lparr>isLoading := False\<rparr>)"



subsection \<open>The controls of the panels\<close>









subsection \<open>Notions of the specification\<close>

text \<open>The specification's cursor remap: \<^verbatim>\<open>savedCursor = max(0, current - truncatedCount)\<close>
  with \<^verbatim>\<open>truncatedCount = max(0, originalLength - K)\<close> and \<open>K = 5\<close>.\<close>

definition spec_saved_cursor :: "int \<Rightarrow> nat \<Rightarrow> int" where
  "spec_saved_cursor current originalLength = max 0 (current - max 0 (int originalLength - 5))"

text \<open>The record the specification expects \<^verbatim>\<open>saveData\<close> to write for a state, given
  the thumbnails: the thumbnails, the remapped cursor, the prompt and the tab.\<close>

definition snapshot :: "app_state \<Rightarrow> string list \<Rightarrow> saved_state" where
  "snapshot st urls =
     \<lparr> saved_history = HistoryArray (map JString urls),
       saved_historyIndex = Some (spec_saved_cursor (historyIndex st) (length (history st))),
       saved_prompt = Some (prompt st),
       saved_activeTab = Some (activeTab st) \<rparr>"

text \<open>The three failures of the generation service, as the specification names them:
  blocked, no image returned, abnormal stop.\<close>

definition blocked :: "api_response \<Rightarrow> bool" where
  "blocked response = truthy (blockReason response)"





subsection \<open>Sample data for the closed instances\<close>

definition imgA :: File where "imgA = File [1] ''a.png'' ''image/png''"
definition imgB :: File where "imgB = File [2] ''b.png'' ''image/png''"
definition imgC :: File where "imgC = File [3] ''c.png'' ''image/png''"
definition imgD :: File where "imgD = File [4] ''d.png'' ''image/png''"
definition imgE :: File where "imgE = File [5] ''e.png'' ''image/png''"
definition imgF :: File where "imgF = File [6] ''f.png'' ''image/png''"
definition imgG :: File where "imgG = File [7] ''g.png'' ''image/png''"

text \<open>A browser that renders each sample image to a one-byte thumbnail and rejects
  every other file, a storage that accepts every write, and one that is full.\<close>

definition sample_render :: "File \<Rightarrow> nat \<Rightarrow> exn + string" where
  "sample_render f maxSize =
     (if f = imgA then Inr ''data:image/jpeg;base64,AQ==''
      else if f = imgB then Inr ''data:image/jpeg;base64,Ag==''
      else if f = imgC then Inr ''data:image/jpeg;base64,Aw==''
      else if f = imgD then Inr ''data:image/jpeg;base64,BA==''
      else if f = imgE then Inr ''data:image/jpeg;base64,BQ==''
      else if f = imgF then Inr ''data:image/jpeg;base64,Bg==''
      else if f = imgG then Inr ''data:image/jpeg;base64,Bw==''
      else Inl NonError)"

definition accepting :: "stored \<Rightarrow> exn option" where
  "accepting v = None"

definition quota_full :: "stored \<Rightarrow> exn option" where
  "quota_full v = Some (DOMException ''QuotaExceededError'' ''The quota has been exceeded.'')"

text \<open>The state after the restore effect found nothing; a session with three entries,
  the cursor on the last; a session with seven entries, the cursor on the fifth.\<close>

definition booted :: app_state where
  "booted = initial_state\<lparr>isLoading := False\<rparr>"

definition session3 :: app_state where
  "session3 = initial_state\<lparr>history := [imgA, imgB, imgC], historyIndex := 2, isLoading := False\<rparr>"

definition session7 :: app_state where
  "session7 =
     initial_state\<lparr>history := [imgA, imgB, imgC, imgD, imgE, imgF, imgG], historyIndex := 4,
       prompt := ''make it blue'', activeTab := adjust, isLoading := False\<rparr>"

text \<open>The thumbnails of the last five entries of \<open>session7\<close> under \<open>sample_render\<close>,
  and the files they decode to.\<close>

definition urls7 :: "string list" where
  "urls7 = [''data:image/jpeg;base64,Aw=='', ''data:image/jpeg;base64,BA=='',
     ''data:image/jpeg;base64,BQ=='', ''data:image/jpeg;base64,Bg=='', ''data:image/jpeg;base64,Bw=='']"

definition files7 :: "File list" where
  "files7 = [File [3] ''saved-image-0.png'' ''image/jpeg'',
          File [4] ''saved-image-1.png'' ''image/jpeg'',
          File [5] ''saved-image-2.png'' ''image/jpeg'',
          File [6] ''saved-image-3.png'' ''image/jpeg'',
          File [7] ''saved-image-4.png'' ''image/jpeg'']"

text \<open>Seven entries built by an upload and six commits, and the state restored from
  their autosave.\<close>

definition edited7 :: app_state where
  "edited7 = foldl apply_op (handleImageUpload imgA booted)
     [Commit imgB, Commit imgC, Commit imgD, Commit imgE, Commit imgF, Commit imgG]"

definition restored7 :: app_state where
  "restored7 = initial_state\<lparr>history := files7, historyIndex := 4, isLoading := False\<rparr>"


definition stale_record :: saved_state where
  "stale_record =
     \<lparr> saved_history = HistoryArray [JString ''data:image/jpeg;base64,AQ==''],
       saved_historyIndex = Some 7, saved_prompt = None, saved_activeTab = None \<rparr>"




text \<open>Three requests issued on \<open>session3\<close>, the state while one of them is in flight,
  the idle world on \<open>session3\<close>, and the world while the tint request is in flight.\<close>

definition filter_request :: pending where
  "filter_request =
     \<lparr> call = GenerateFilteredImage imgC ''sepia'', captured_history = [imgA, imgB, imgC],
       captured_index = 2 \<rparr>"



definition filter_pending :: app_state where
  "filter_pending = session3\<lparr>isLoading := True\<rparr>"



text \<open>A state ready for a locked style request, the idle world on it, and a run of
  events that makes a locked request, an unlocked one and a locked one again without
  touching the reference image.\<close>

definition style_ready :: app_state where
  "style_ready = session3\<lparr>referenceImage := Some imgD, isStyleLocked := True\<rparr>"



section \<open>Properties of the edit history\<close>

lemmas history_defs =
  commit_def addImageToHistory_def resetZoomAndPan_def handleUndo_def handleRedo_def
  handleReset_def handleHistoryStepClick_def canUndo_def canRedo_def

lemma slice_prefix: "0 \<le> c \<Longrightarrow> slice xs 0 (c + 1) = take (nat c + 1) xs"
  by (simp add: slice_def relative_index_def nat_add_distrib min_def)



text \<open>Whatever history and cursor the callback captured, the state it writes has its
  cursor on the last entry.\<close>

lemma addImageToHistory_in_range: "cursor_in_range (addImageToHistory h i f st)"
  by (simp add: cursor_in_range_def addImageToHistory_def resetZoomAndPan_def Let_def)

lemma apply_op_in_range: "cursor_in_range st \<Longrightarrow> cursor_in_range (apply_op st x)"
  by (cases x) (auto simp: cursor_in_range_def history_defs slice_prefix Let_def min_def)

lemma foldl_in_range: "cursor_in_range st \<Longrightarrow> cursor_in_range (foldl apply_op st ops)"
  by (induction ops arbitrary: st) (simp_all add: apply_op_in_range)

lemma upload_in_range: "cursor_in_range (handleImageUpload f st)"
  by (simp add: cursor_in_range_def handleImageUpload_def resetZoomAndPan_def)

text \<open>
  Claim C2. After an image has been loaded, every sequence of commits, undos and redos
  (and of jumps and resets as well) leaves a non-empty history whose cursor is at least 0
  and below the number of entries. Undo changes nothing when the cursor is 0, and redo
  changes nothing when the cursor is on the last entry; neither reports an error.
\<close>

theorem cursor_stays_in_range:
  "(let s = foldl apply_op (handleImageUpload f st0) ops in
      history s \<noteq> [] \<and> 0 \<le> historyIndex s \<and> historyIndex s < int (length (history s))) \<and>
   (historyIndex st = 0 \<longrightarrow> handleUndo st = st) \<and>
   (historyIndex st = int (length (history st)) - 1 \<longrightarrow> handleRedo st = st)"
proof -
  have "cursor_in_range (foldl apply_op (handleImageUpload f st0) ops)"
    by (rule foldl_in_range) (rule upload_in_range)
  then show ?thesis
    by (auto simp: cursor_in_range_def Let_def handleUndo_def handleRedo_def canUndo_def canRedo_def)
qed

theorem cursor_stays_in_range_witness:
  "history (foldl apply_op (handleImageUpload imgA initial_state)
      [Commit imgB, Undo, Undo, Redo, Commit imgC, Redo]) = [imgA, imgB, imgC] \<and>
   historyIndex (foldl apply_op (handleImageUpload imgA initial_state)
      [Commit imgB, Undo, Undo, Redo, Commit imgC, Redo]) = 2 \<and>
   historyIndex (handleImageUpload imgA initial_state) = 0 \<and>
   handleUndo (handleImageUpload imgA initial_state) = handleImageUpload imgA initial_state \<and>
   historyIndex session3 = int (length (history session3)) - 1 \<and>
   handleRedo session3 = session3"
  using cursor_stays_in_range [of imgA initial_state
      "[Commit imgB, Undo, Undo, Redo, Commit imgC, Redo]" "handleImageUpload imgA initial_state"]
    cursor_stays_in_range [of imgA initial_state "[]" session3]
  by (simp add: history_defs handleImageUpload_def initial_state_def session3_def
      slice_def relative_index_def Let_def)

subsection \<open>Properties of session persistence\<close>

lemma dataURLtoFile_rename:
  "dataURLtoFile u n = Inr f \<Longrightarrow> dataURLtoFile u m = Inr (File (file_bits f) m (file_type f))"
  by (auto simp: dataURLtoFile_def new_File_def Let_def split: option.splits sum.splits if_splits)


lemma decode_entry_ok: "entry_decodes x \<Longrightarrow> \<exists>f. decode_entry k x = Inr f"
proof (cases x)
  case (JString u)
  assume "entry_decodes x"
  with JString obtain f where "dataURLtoFile u [] = Inr f"
    by (auto split: sum.splits)
  from dataURLtoFile_rename [OF this] JString show ?thesis by simp
next
  case JNotString
  assume "entry_decodes x"
  with JNotString show ?thesis by simp
qed


lemma decode_entries_length: "decode_entries k xs = Inr fs \<Longrightarrow> length fs = length xs"
  by (induction xs arbitrary: k fs) (auto split: sum.splits)

lemma decode_entries_ok:
  "list_all entry_decodes xs \<Longrightarrow> \<exists>fs. decode_entries k xs = Inr fs"
proof (induction xs arbitrary: k)
  case Nil
  show ?case by simp
next
  case (Cons x xs)
  from Cons.prems obtain f where f: "decode_entry k x = Inr f"
    using decode_entry_ok by auto
  from Cons.prems Cons.IH [of "Suc k"] obtain fs where "decode_entries (Suc k) xs = Inr fs"
    by auto
  with f show ?case by simp
qed


lemma decode_entries_hd:
  "decode_entries k (x # xs) = Inr fs \<Longrightarrow> decode_entry k x = Inr (hd fs)"
  by (auto split: sum.splits)

lemma promise_all_length: "promise_all rs = Inr xs \<Longrightarrow> length xs = length rs"
  by (induction rs arbitrary: xs) (auto split: sum.splits)

lemma promise_all_hd: "promise_all (r # rs) = Inr xs \<Longrightarrow> r = Inr (hd xs)"
  by (auto split: sum.splits)

lemma slice_from_last: "slice_from xs (- MAX_HISTORY_AUTOSAVE) = drop (length xs - 5) xs"
proof -
  have "nat (int (length xs) - 5) = length xs - 5" by linarith
  then show ?thesis
    by (auto simp: slice_from_def slice_def relative_index_def MAX_HISTORY_AUTOSAVE_def Let_def max_def)
qed

lemma length_slice_from_last: "length (slice_from xs (- MAX_HISTORY_AUTOSAVE)) = min 5 (length xs)"
  by (simp add: slice_from_last min_def)

lemma restore_installs:
  assumes "saved_history r = HistoryArray entries" and "decode_entries 0 entries = Inr files"
  shows "restore (Some (Json (ParsedValue r))) st =
     Inr (st\<lparr>history := files,
             historyIndex := (case saved_historyIndex r of None \<Rightarrow> -1 | Some i \<Rightarrow> i),
             prompt := (case saved_prompt r of None \<Rightarrow> [] | Some p \<Rightarrow> p),
             activeTab := (case saved_activeTab r of None \<Rightarrow> retouch | Some t \<Rightarrow> t),
             isLoading := False\<rparr>,
          Some (Json (ParsedValue r)))"
  using assms by (simp add: restore_def restore_try_def)

lemma saveData_try_ok:
  assumes thumbs: "promise_all (map (createImageThumbnail render)
            (slice_from (history st) (- MAX_HISTORY_AUTOSAVE))) = Inr urls"
    and accepted: "setItem (Json (ParsedValue (snapshot st urls))) = None"
  shows "saveData_try render setItem st = Inr (Json (ParsedValue (snapshot st urls)))"
proof -
  have "int (length (history st)) - int (min 5 (length (history st)))
      = max 0 (int (length (history st)) - 5)"
    by (simp add: min_def max_def)
  with thumbs accepted show ?thesis
    by (simp add: saveData_try_def Let_def snapshot_def spec_saved_cursor_def
        length_slice_from_last)
qed

text \<open>
  Claim C3. When the thumbnails of the entries to save are rendered, the write is accepted
  and the thumbnails decode, \<^verbatim>\<open>saveData\<close> stores a record with \<open>min 5 n\<close> thumbnails
  for a history of \<open>n\<close> entries, with the cursor \<open>max 0 (current - max 0 (n - 5))\<close>,
  and restoring that record gives a history of \<open>min 5 n\<close> entries with that cursor.
  For \<open>n = 7\<close>: five thumbnails, five restored entries, cursor \<open>max 0 (current - 2)\<close>.
\<close>

theorem save_then_restore:
  assumes nonempty: "history st \<noteq> []"
    and thumbs: "promise_all (map (createImageThumbnail render)
            (slice_from (history st) (- MAX_HISTORY_AUTOSAVE))) = Inr urls"
    and accepted: "setItem (Json (ParsedValue (snapshot st urls))) = None"
    and decoded: "decode_entries 0 (map JString urls) = Inr files"
  shows "saveData render setItem st ls = Inr (Some (Json (ParsedValue (snapshot st urls)))) \<and>
     length urls = min 5 (length (history st)) \<and>
     saved_historyIndex (snapshot st urls) =
        Some (max 0 (historyIndex st - max 0 (int (length (history st)) - 5))) \<and>
     restore (Some (Json (ParsedValue (snapshot st urls)))) boot =
        Inr (boot\<lparr>history := files,
                 historyIndex := max 0 (historyIndex st - max 0 (int (length (history st)) - 5)),
                 prompt := prompt st, activeTab := activeTab st, isLoading := False\<rparr>,
             Some (Json (ParsedValue (snapshot st urls)))) \<and>
     length files = min 5 (length (history st)) \<and>
     (length (history st) = 7 \<longrightarrow>
        length urls = 5 \<and> length files = 5 \<and>
        saved_historyIndex (snapshot st urls) = Some (max 0 (historyIndex st - 2)))"
proof -
  have saved: "saveData render setItem st ls = Inr (Some (Json (ParsedValue (snapshot st urls))))"
    using nonempty saveData_try_ok [where setItem = setItem, OF thumbs accepted]
    by (simp add: saveData_def)
  have n_urls: "length urls = min 5 (length (history st))"
    using promise_all_length [OF thumbs] by (simp add: length_slice_from_last)
  have n_files: "length files = min 5 (length (history st))"
    using decode_entries_length [OF decoded] n_urls by simp
  have cursor: "saved_historyIndex (snapshot st urls) =
        Some (max 0 (historyIndex st - max 0 (int (length (history st)) - 5)))"
    by (simp add: snapshot_def spec_saved_cursor_def)
  have restored: "restore (Some (Json (ParsedValue (snapshot st urls)))) boot =
        Inr (boot\<lparr>history := files,
                 historyIndex := max 0 (historyIndex st - max 0 (int (length (history st)) - 5)),
                 prompt := prompt st, activeTab := activeTab st, isLoading := False\<rparr>,
             Some (Json (ParsedValue (snapshot st urls))))"
    using restore_installs [of "snapshot st urls" "map JString urls" files boot] decoded
    by (simp add: snapshot_def spec_saved_cursor_def)
  have seven: "length (history st) = 7 \<longrightarrow>
        length urls = 5 \<and> length files = 5 \<and>
        saved_historyIndex (snapshot st urls) = Some (max 0 (historyIndex st - 2))"
    using n_urls n_files cursor by simp
  from saved n_urls cursor restored n_files seven show ?thesis by blast
qed

lemma session7_nonempty: "history session7 \<noteq> []"
  by (simp add: session7_def initial_state_def)

lemma session7_thumbs:
  "promise_all (map (createImageThumbnail sample_render)
      (slice_from (history session7) (- MAX_HISTORY_AUTOSAVE))) = Inr urls7"
  by code_simp

lemma urls7_decoded: "decode_entries 0 (map JString urls7) = Inr files7"
  by code_simp

theorem save_then_restore_witness:
  "length (history session7) = 7 \<and> historyIndex session7 = 4 \<and>
   saveData sample_render accepting session7 None =
     Inr (Some (Json (ParsedValue (snapshot session7 urls7)))) \<and>
   length urls7 = 5 \<and>
   saved_historyIndex (snapshot session7 urls7) = Some 2 \<and>
   restore (Some (Json (ParsedValue (snapshot session7 urls7)))) initial_state =
     Inr (initial_state\<lparr>history := files7, historyIndex := 2, prompt := ''make it blue'',
            activeTab := adjust, isLoading := False\<rparr>,
          Some (Json (ParsedValue (snapshot session7 urls7)))) \<and>
   length files7 = 5"
  using save_then_restore [where setItem = accepting and ls = None and boot = initial_state,
      OF session7_nonempty session7_thumbs _ urls7_decoded]
  by (simp add: accepting_def session7_def initial_state_def)

text \<open>
  Claim C8. When the write of \<^verbatim>\<open>saveData\<close> throws a \<^verbatim>\<open>DOMException\<close> named
  \<^verbatim>\<open>QuotaExceededError\<close> (or \<^verbatim>\<open>NS_ERROR_DOM_QUOTA_REACHED\<close>), the autosave key is
  removed, whatever it held, and \<^verbatim>\<open>saveData\<close> returns normally.
\<close>

theorem quota_failure_removes_snapshot:
  assumes nonempty: "history st \<noteq> []"
    and thumbs: "promise_all (map (createImageThumbnail render)
            (slice_from (history st) (- MAX_HISTORY_AUTOSAVE))) = Inr urls"
    and thrown: "setItem (Json (ParsedValue (snapshot st urls))) = Some (DOMException name msg)"
    and quota: "name = ''QuotaExceededError'' \<or> name = ''NS_ERROR_DOM_QUOTA_REACHED''"
  shows "saveData render setItem st ls = Inr None"
proof -
  have "int (length (history st)) - int (min 5 (length (history st)))
      = max 0 (int (length (history st)) - 5)"
    by (simp add: min_def max_def)
  with thumbs thrown
  have "saveData_try render setItem st = Inl (DOMException name msg)"
    by (simp add: saveData_try_def Let_def snapshot_def spec_saved_cursor_def
        length_slice_from_last)
  moreover have "is_quota_error (DOMException name msg)"
    using quota by (auto simp: is_quota_error_def)
  ultimately show ?thesis
    using nonempty by (simp add: saveData_def)
qed

theorem quota_failure_removes_snapshot_witness:
  "history session7 \<noteq> [] \<and>
   quota_full (Json (ParsedValue (snapshot session7 urls7))) =
     Some (DOMException ''QuotaExceededError'' ''The quota has been exceeded.'') \<and>
   saveData sample_render quota_full session7
     (Some (Json (ParsedValue (snapshot session3 [])))) = Inr None"
  using quota_failure_removes_snapshot [where setItem = quota_full and
      ls = "Some (Json (ParsedValue (snapshot session3 [])))"
      and name = "''QuotaExceededError''" and msg = "''The quota has been exceeded.''",
      OF session7_nonempty session7_thumbs]
  by (simp add: quota_full_def session7_nonempty)





lemma index_or_null_outside: "i < 0 \<or> int (length xs) \<le> i \<Longrightarrow> index_or_null xs i = None"
  by (auto simp: index_or_null_def)

text \<open>
  Claim C10. The restore effect installs the record's \<^verbatim>\<open>historyIndex\<close> (or \<open>-1\<close>
  when the record has none) without comparing it with the number of restored entries: for
  a well-formed record with at least one thumbnail whose cursor is negative or not below
  the number of thumbnails, the restored history is non-empty, its cursor is that value
  and out of range, and the current image is \<^verbatim>\<open>null\<close>.
\<close>

theorem restore_installs_cursor_unchecked:
  assumes array: "saved_history r = HistoryArray entries"
    and nonempty: "entries \<noteq> []"
    and decodes: "list_all entry_decodes entries"
    and cursor: "i = (case saved_historyIndex r of None \<Rightarrow> -1 | Some j \<Rightarrow> j)"
    and outside: "i < 0 \<or> int (length entries) \<le> i"
  shows "well_formed (Some (Json (ParsedValue r))) \<and>
    (\<exists>st'. restore (Some (Json (ParsedValue r))) st = Inr (st', Some (Json (ParsedValue r))) \<and>
       length (history st') = length entries \<and> history st' \<noteq> [] \<and>
       historyIndex st' = i \<and> \<not> cursor_in_range st' \<and> currentImage st' = None)"
proof -
  from decode_entries_ok [OF decodes, of 0] obtain files
    where files: "decode_entries 0 entries = Inr files" ..
  have len: "length files = length entries"
    using decode_entries_length [OF files] .
  let ?st' = "st\<lparr>history := files,
             historyIndex := (case saved_historyIndex r of None \<Rightarrow> -1 | Some i \<Rightarrow> i),
             prompt := (case saved_prompt r of None \<Rightarrow> [] | Some p \<Rightarrow> p),
             activeTab := (case saved_activeTab r of None \<Rightarrow> retouch | Some t \<Rightarrow> t),
             isLoading := False\<rparr>"
  have "restore (Some (Json (ParsedValue r))) st = Inr (?st', Some (Json (ParsedValue r)))"
    using restore_installs [OF array files] .
  moreover have "length (history ?st') = length entries" using len by simp
  moreover have "history ?st' \<noteq> []" using len nonempty by auto
  moreover have "historyIndex ?st' = i" using cursor by simp
  moreover have "\<not> cursor_in_range ?st'"
    using outside cursor len by (auto simp: cursor_in_range_def)
  moreover have "currentImage ?st' = None"
    using outside cursor len by (simp add: currentImage_def index_or_null_outside)
  moreover have "well_formed (Some (Json (ParsedValue r)))"
    using array decodes by (simp add: well_formed_def)
  ultimately show ?thesis by blast
qed

theorem restore_installs_cursor_unchecked_witness:
  "saved_history stale_record = HistoryArray [JString ''data:image/jpeg;base64,AQ==''] \<and>
   list_all entry_decodes [JString ''data:image/jpeg;base64,AQ==''] \<and>
   saved_historyIndex stale_record = Some 7 \<and>
   well_formed (Some (Json (ParsedValue stale_record))) \<and>
   restore (Some (Json (ParsedValue stale_record))) initial_state =
     Inr (initial_state\<lparr>history := [File [1] ''saved-image-0.png'' ''image/jpeg''],
            historyIndex := 7, isLoading := False\<rparr>, Some (Json (ParsedValue stale_record))) \<and>
   currentImage (initial_state\<lparr>history := [File [1] ''saved-image-0.png'' ''image/jpeg''],
            historyIndex := 7, isLoading := False\<rparr>) = None"
proof -
  have array: "saved_history stale_record = HistoryArray [JString ''data:image/jpeg;base64,AQ=='']"
    by (simp add: stale_record_def)
  have decodes: "list_all entry_decodes [JString ''data:image/jpeg;base64,AQ=='']"
    by code_simp
  have cursor: "(7::int) = (case saved_historyIndex stale_record of None \<Rightarrow> -1 | Some j \<Rightarrow> j)"
    by (simp add: stale_record_def)
  have restored: "restore (Some (Json (ParsedValue stale_record))) initial_state =
     Inr (initial_state\<lparr>history := [File [1] ''saved-image-0.png'' ''image/jpeg''],
            historyIndex := 7, isLoading := False\<rparr>, Some (Json (ParsedValue stale_record)))"
    by code_simp
  show ?thesis
    using restore_installs_cursor_unchecked [OF array _ decodes cursor, of initial_state]
      array decodes restored
    by (auto simp: stale_record_def)
qed

lemma edited7_history: "history edited7 = [imgA, imgB, imgC, imgD, imgE, imgF, imgG]"
  by (simp add: edited7_def booted_def initial_state_def handleImageUpload_def history_defs
      slice_def relative_index_def Let_def)

lemma edited7_saved:
  "saveData sample_render accepting edited7 None = Inr (Some (Json (ParsedValue (snapshot edited7 urls7))))"
  by code_simp

lemma edited7_restored:
  "restore (Some (Json (ParsedValue (snapshot edited7 urls7)))) initial_state =
     Inr (restored7, Some (Json (ParsedValue (snapshot edited7 urls7))))"
  by code_simp

text \<open>
  Claim C7, as stated, fails at session restore. After an upload of \<open>imgA\<close> and six
  commits the first entry is \<open>imgA\<close>; the autosave keeps the last five entries, and the
  state restored from it has as its first entry the decoded thumbnail of the third entry
  \<open>imgC\<close>, not the uploaded image.
\<close>

theorem restore_replaces_first_entry:
  "history edited7 = [imgA, imgB, imgC, imgD, imgE, imgF, imgG] \<and>
   originalImage edited7 = Some imgA \<and>
   saveData sample_render accepting edited7 None =
     Inr (Some (Json (ParsedValue (snapshot edited7 urls7)))) \<and>
   restore (Some (Json (ParsedValue (snapshot edited7 urls7)))) initial_state =
     Inr (restored7, Some (Json (ParsedValue (snapshot edited7 urls7)))) \<and>
   history restored7 \<noteq> [] \<and>
   originalImage restored7 = Some (File [3] ''saved-image-0.png'' ''image/jpeg'') \<and>
   originalImage restored7 \<noteq> Some imgA \<and>
   createImageThumbnail sample_render imgC = Inr ''data:image/jpeg;base64,Aw=='' \<and>
   dataURLtoFile ''data:image/jpeg;base64,Aw=='' ''saved-image-0.png'' =
     Inr (File [3] ''saved-image-0.png'' ''image/jpeg'')"
proof -
  have original: "originalImage edited7 = Some imgA"
    by (simp add: originalImage_def index_or_null_def edited7_history)
  have nonempty: "history restored7 \<noteq> []"
    by (simp add: restored7_def files7_def)
  have first: "originalImage restored7 = Some (File [3] ''saved-image-0.png'' ''image/jpeg'')"
    by (simp add: originalImage_def index_or_null_def restored7_def files7_def)
  have differs: "originalImage restored7 \<noteq> Some imgA"
    by (simp add: first imgA_def)
  have thumb: "createImageThumbnail sample_render imgC = Inr ''data:image/jpeg;base64,Aw==''"
    by code_simp
  have decoded: "dataURLtoFile ''data:image/jpeg;base64,Aw=='' ''saved-image-0.png'' =
     Inr (File [3] ''saved-image-0.png'' ''image/jpeg'')"
    by code_simp
  from edited7_history original edited7_saved edited7_restored nonempty first differs thumb decoded
  show ?thesis by blast
qed

lemma hd_take_append: "h \<noteq> [] \<Longrightarrow> hd (take (Suc k) h @ ys) = hd h"
  by (cases h) auto

lemma apply_op_keeps_first:
  assumes "cursor_in_range st"
  shows "hd (history (apply_op st x)) = hd (history st)"
proof -
  from assms have "history st \<noteq> []"
    by (auto simp: cursor_in_range_def)
  with assms show ?thesis
    by (cases x) (auto simp: cursor_in_range_def history_defs slice_prefix Let_def hd_take_append)
qed

lemma foldl_keeps_first:
  "cursor_in_range st \<Longrightarrow> hd (history (foldl apply_op st ops)) = hd (history st)"
proof (induction ops arbitrary: st)
  case Nil
  show ?case by simp
next
  case (Cons x ops)
  from Cons.prems have "cursor_in_range (apply_op st x)" by (rule apply_op_in_range)
  from Cons.IH [OF this] apply_op_keeps_first [OF Cons.prems, of x] show ?case by simp
qed

lemma original_after_ops:
  "originalImage (foldl apply_op (handleImageUpload f boot) ops) = Some f"
proof -
  let ?s = "foldl apply_op (handleImageUpload f boot) ops"
  have range: "cursor_in_range ?s"
    by (rule foldl_in_range) (rule upload_in_range)
  have "hd (history ?s) = hd (history (handleImageUpload f boot))"
    by (rule foldl_keeps_first) (rule upload_in_range)
  then have "hd (history ?s) = f"
    by (simp add: handleImageUpload_def resetZoomAndPan_def)
  moreover from range have "history ?s \<noteq> []"
    by (auto simp: cursor_in_range_def)
  ultimately show ?thesis
    by (simp add: originalImage_def index_or_null_def hd_conv_nth)
qed

lemma show_nat_0: "show_nat 0 = ''0''"
  by code_simp

lemma first_thumbnail:
  assumes nonempty: "h \<noteq> []"
    and thumbs: "promise_all (map (createImageThumbnail render)
            (slice_from h (- MAX_HISTORY_AUTOSAVE))) = Inr urls"
  shows "createImageThumbnail render (h ! (length h - min 5 (length h))) = Inr (hd urls)"
proof -
  let ?k = "length h - 5"
  have k: "?k < length h" using nonempty by (cases h) auto
  have "drop ?k h = h ! ?k # drop (Suc ?k) h"
    using k by (simp add: Cons_nth_drop_Suc)
  with thumbs have "promise_all (createImageThumbnail render (h ! ?k) #
      map (createImageThumbnail render) (drop (Suc ?k) h)) = Inr urls"
    by (simp add: slice_from_last)
  from promise_all_hd [OF this] have "createImageThumbnail render (h ! ?k) = Inr (hd urls)" .
  moreover have "length h - min 5 (length h) = ?k" by (simp add: min_def)
  ultimately show ?thesis by simp
qed

lemma first_decoded:
  assumes "urls \<noteq> []" and "decode_entries 0 (map JString urls) = Inr files"
  shows "dataURLtoFile (hd urls) ''saved-image-0.png'' = Inr (hd files)"
proof -
  from assms(1) obtain u us where urls: "urls = u # us" by (cases urls) auto
  with assms(2) have "decode_entries 0 (JString u # map JString us) = Inr files" by simp
  from decode_entries_hd [OF this] urls show ?thesis by (simp add: show_nat_0)
qed

text \<open>
  Claim C7, amended. After an upload of \<open>f\<close>, every sequence of commits, undos, redos,
  jumps and resets leaves \<open>f\<close> as the first entry. Session restore does not: when a
  non-empty history of \<open>n\<close> entries is saved (thumbnails rendered, write accepted) and the
  record is restored (thumbnails decoded), the first entry of the restored history is the
  file decoded, under the name \<^verbatim>\<open>saved-image-0.png\<close>, from the thumbnail of the entry
  at index \<open>n - min 5 n\<close> of the saved history.
\<close>

theorem first_entry_kept_in_session_replaced_by_restore:
  "originalImage (foldl apply_op (handleImageUpload f boot) ops) = Some f \<and>
   (history st \<noteq> [] \<and>
    promise_all (map (createImageThumbnail render)
       (slice_from (history st) (- MAX_HISTORY_AUTOSAVE))) = Inr urls \<and>
    setItem (Json (ParsedValue (snapshot st urls))) = None \<and>
    decode_entries 0 (map JString urls) = Inr files \<longrightarrow>
      (\<exists>ls st'. saveData render setItem st ls0 = Inr ls \<and>
         restore ls initial_state = Inr (st', ls) \<and>
         originalImage st' = Some (hd files) \<and>
         createImageThumbnail render
           (history st ! (length (history st) - min 5 (length (history st)))) = Inr (hd urls) \<and>
         dataURLtoFile (hd urls) ''saved-image-0.png'' = Inr (hd files)))"
proof (intro conjI impI)
  show "originalImage (foldl apply_op (handleImageUpload f boot) ops) = Some f"
    by (rule original_after_ops)
next
  assume a: "history st \<noteq> [] \<and>
    promise_all (map (createImageThumbnail render)
       (slice_from (history st) (- MAX_HISTORY_AUTOSAVE))) = Inr urls \<and>
    setItem (Json (ParsedValue (snapshot st urls))) = None \<and>
    decode_entries 0 (map JString urls) = Inr files"
  then have nonempty: "history st \<noteq> []"
    and thumbs: "promise_all (map (createImageThumbnail render)
       (slice_from (history st) (- MAX_HISTORY_AUTOSAVE))) = Inr urls"
    and accepted: "setItem (Json (ParsedValue (snapshot st urls))) = None"
    and decoded: "decode_entries 0 (map JString urls) = Inr files"
    by simp_all
  let ?ls = "Some (Json (ParsedValue (snapshot st urls)))"
  let ?st' = "initial_state\<lparr>history := files,
        historyIndex := (case saved_historyIndex (snapshot st urls) of None \<Rightarrow> -1 | Some i \<Rightarrow> i),
        prompt := (case saved_prompt (snapshot st urls) of None \<Rightarrow> [] | Some p \<Rightarrow> p),
        activeTab := (case saved_activeTab (snapshot st urls) of None \<Rightarrow> retouch | Some t \<Rightarrow> t),
        isLoading := False\<rparr>"
  have saved: "saveData render setItem st ls0 = Inr ?ls"
    using nonempty saveData_try_ok [where setItem = setItem, OF thumbs accepted]
    by (simp add: saveData_def)
  have restored: "restore ?ls initial_state = Inr (?st', ?ls)"
    using restore_installs [of "snapshot st urls" "map JString urls" files initial_state] decoded
    by (simp add: snapshot_def)
  have n_urls: "length urls = min 5 (length (history st))"
    using promise_all_length [OF thumbs] by (simp add: length_slice_from_last)
  with nonempty have urls: "urls \<noteq> []" by (auto simp: min_def split: if_splits)
  have n_files: "length files = length urls"
    using decode_entries_length [OF decoded] by simp
  with urls have "files \<noteq> []" by auto
  then have first: "originalImage ?st' = Some (hd files)"
    by (simp add: originalImage_def index_or_null_def hd_conv_nth)
  from saved restored first first_thumbnail [OF nonempty thumbs] first_decoded [OF urls decoded]
  show "\<exists>ls st'. saveData render setItem st ls0 = Inr ls \<and>
         restore ls initial_state = Inr (st', ls) \<and>
         originalImage st' = Some (hd files) \<and>
         createImageThumbnail render
           (history st ! (length (history st) - min 5 (length (history st)))) = Inr (hd urls) \<and>
         dataURLtoFile (hd urls) ''saved-image-0.png'' = Inr (hd files)"
    by blast
qed

theorem first_entry_kept_in_session_replaced_by_restore_witness:
  "originalImage (foldl apply_op (handleImageUpload imgA booted) [Commit imgB, Undo, Commit imgC, Reset])
     = Some imgA \<and>
   history session7 \<noteq> [] \<and>
   promise_all (map (createImageThumbnail sample_render)
      (slice_from (history session7) (- MAX_HISTORY_AUTOSAVE))) = Inr urls7 \<and>
   accepting (Json (ParsedValue (snapshot session7 urls7))) = None \<and>
   decode_entries 0 (map JString urls7) = Inr files7 \<and>
   createImageThumbnail sample_render
     (history session7 ! (length (history session7) - min 5 (length (history session7)))) =
     Inr (hd urls7) \<and>
   dataURLtoFile (hd urls7) ''saved-image-0.png'' = Inr (hd files7) \<and>
   length (history session7) - min 5 (length (history session7)) = 2 \<and>
   history session7 ! 2 = imgC \<and>
   hd files7 = File [3] ''saved-image-0.png'' ''image/jpeg''"
proof -
  have accepted: "accepting (Json (ParsedValue (snapshot session7 urls7))) = None"
    by (simp add: accepting_def)
  have seven: "length (history session7) - min 5 (length (history session7)) = 2"
    by (simp add: session7_def initial_state_def)
  have third: "history session7 ! 2 = imgC"
    by (simp add: session7_def initial_state_def)
  have first: "hd files7 = File [3] ''saved-image-0.png'' ''image/jpeg''"
    by (simp add: files7_def)
  show ?thesis
    using first_entry_kept_in_session_replaced_by_restore
      [where f = imgA and boot = booted and ops = "[Commit imgB, Undo, Commit imgC, Reset]"
         and st = session7 and render = sample_render and urls = urls7 and setItem = accepting
         and files = files7 and ?ls0.0 = None]
      session7_nonempty session7_thumbs accepted urls7_decoded seven third first
    by blast
qed

subsection \<open>Properties of the edit orchestrator\<close>









lemma filter_submitted: "handleApplyFilter ''sepia'' session3 = (filter_pending, Some filter_request)"
  by code_simp







text \<open>The truthiness test of the stored seed: when the number drawn is 0, it is stored,
  and the next locked request draws again.\<close>

lemma zero_seed_is_drawn_again:
  "seed_used (snd (handleApplyStyle 0 [] style_ready)) = Some 0 \<and>
   designSeed (fst (handleApplyStyle 0 [] style_ready)) = Some 0 \<and>
   seed_used (snd (handleApplyStyle 5 [] (fst (handleApplyStyle 0 [] style_ready)))) = Some 5"
  by code_simp
















lemma settle_not_loading: "\<not> isLoading (settle now p result st)"
  by (simp add: settle_def Let_def)








end
